theory Spec2Isabelle
  imports Main
begin

section \<open>Strings, runes and machine integers\<close>

text \<open>
  A Go string is modelled by the sequence of runes (code points) that \<^verbatim>\<open>for _, r := range str\<close>
  yields and that \<^verbatim>\<open>utf8.RuneCountInString\<close> counts. Every string the program builds is a
  concatenation of whole pieces, each starting with an ASCII byte or a complete glyph, so
  concatenation of strings is concatenation of rune sequences. (A byte that is not valid
  UTF-8 is the one rune U+FFFD to both.)
\<close>

type_synonym rune = nat
type_synonym gostring = "rune list"

definition runes :: "string \<Rightarrow> gostring" where
  "runes s = map of_char s"

definition RuneCountInString :: "gostring \<Rightarrow> int" where
  "RuneCountInString s = int (length s)"

text \<open>
  Go's \<^verbatim>\<open>int\<close> is a 64-bit two's complement integer on the platforms the tool is built for:
  \<^verbatim>\<open>+\<close>, \<^verbatim>\<open>-\<close> and \<^verbatim>\<open>*\<close> wrap around silently. The model keeps values in \<open>int\<close> and
  writes the wrap-around out at every arithmetic operation of the source. The remainder
  \<^verbatim>\<open>%\<close> truncates towards zero.
\<close>

definition maxInt :: int where
  "maxInt = 9223372036854775807"

definition wrap64 :: "int \<Rightarrow> int" where
  "wrap64 x = (x + 9223372036854775808) mod 18446744073709551616 - 9223372036854775808"

definition goRem :: "int \<Rightarrow> int \<Rightarrow> int" where
  "goRem a b = sgn a * (\<bar>a\<bar> mod \<bar>b\<bar>)"

text \<open>
  The panics of the program are values. \<open>NegativeRepeatCount\<close> is the panic of
  \<^verbatim>\<open>strings.Repeat\<close>, \<open>IndexOutOfRange\<close> the one of a slice index, and \<open>NoMoreDraws\<close>
  says that the finite prefix of the pseudo-random source handed to the model is used up
  while a loop is still drawing (on the real, endless source the loop is still running).
\<close>

datatype error = NegativeRepeatCount | IndexOutOfRange | NoMoreDraws

text \<open>
  \<^verbatim>\<open>strings.Repeat\<close> panics on a negative count. Memory is unbounded in the model: the
  library's second panic (the length of the result overflows) and the exhaustion of
  memory are not modelled.
\<close>

definition Repeat :: "gostring \<Rightarrow> int \<Rightarrow> error + gostring" where
  "Repeat s count =
     (if count < 0 then Inl NegativeRepeatCount else Inr (concat (replicate (nat count) s)))"

definition repeatChar :: "gostring \<Rightarrow> int \<Rightarrow> error + gostring" where
  "repeatChar char n = Repeat char n"

section \<open>Colors\<close>

text \<open>
  A \<^verbatim>\<open>*color.Color\<close> of the library \<^verbatim>\<open>github.com/fatih/color\<close> is the list of attributes
  given to \<^verbatim>\<open>color.New\<close>; the nil pointer is \<open>None\<close>. The library is not part of the
  repository. \<^verbatim>\<open>Sprint\<close> is modelled with color output switched on: it puts the escape
  sequence \<^verbatim>\<open>ESC [ a1 ; ... ; an m\<close> in front of the text and the reset sequence
  \<^verbatim>\<open>ESC [ 0 m\<close> behind it. Where the library switches color output off (its
  \<^verbatim>\<open>NoColor\<close>, set when the output is not a terminal), \<^verbatim>\<open>Sprint\<close> returns the text as it
  is, and the program behaves as it does with nil colors, that is with \<open>None\<close> here.
\<close>

type_synonym color = "int list"

fun natDigits :: "nat \<Rightarrow> gostring" where
  "natDigits n = (if n < 10 then [48 + n] else natDigits (n div 10) @ [48 + n mod 10])"

declare natDigits.simps [simp del]

definition Itoa :: "int \<Rightarrow> gostring" where
  "Itoa i = (if i < 0 then 45 # natDigits (nat (- i)) else natDigits (nat i))"

fun colorSequence :: "color \<Rightarrow> gostring" where
  "colorSequence [] = []"
| "colorSequence [a] = Itoa a"
| "colorSequence (a # b # as) = Itoa a @ 59 # colorSequence (b # as)"

definition Sprint :: "color \<Rightarrow> gostring \<Rightarrow> gostring" where
  "Sprint c s = [27, 91] @ colorSequence c @ [109] @ s @ [27, 91, 48, 109]"

section \<open>Glyph themes\<close>

type_synonym Theme = "string \<rightharpoonup> gostring"

text \<open>
  Indexing a Go map with a missing key yields the zero value, the empty string. The
  glyphs of the unicode set are the box drawing characters U+2501, U+2503, U+250F, U+2513,
  U+2517 and U+251B; the glyphs of the other two sets are ASCII.
\<close>

definition themeAt :: "Theme \<Rightarrow> string \<Rightarrow> gostring" where
  "themeAt theme k = (case theme k of None \<Rightarrow> [] | Some g \<Rightarrow> g)"

definition themeUnicode :: Theme where
  "themeUnicode = [''WE'' \<mapsto> [9473], ''NS'' \<mapsto> [9475], ''NW'' \<mapsto> [9487],
                   ''NE'' \<mapsto> [9491], ''SW'' \<mapsto> [9495], ''SE'' \<mapsto> [9499]]"

definition themeAscii :: Theme where
  "themeAscii = [''WE'' \<mapsto> runes ''-'', ''NS'' \<mapsto> runes ''|'', ''NW'' \<mapsto> runes ''+'',
                 ''NE'' \<mapsto> runes ''+'', ''SW'' \<mapsto> runes ''+'', ''SE'' \<mapsto> runes ''+'']"

definition themePlain :: Theme where
  "themePlain = [''WE'' \<mapsto> runes '' '', ''NS'' \<mapsto> runes '' '', ''NW'' \<mapsto> runes '' '',
                 ''NE'' \<mapsto> runes '' '', ''SW'' \<mapsto> runes '' '', ''SE'' \<mapsto> runes '' '']"

definition getTheme :: "gostring \<Rightarrow> Theme" where
  "getTheme nm =
     (if nm = runes ''unicode'' then themeUnicode
      else if nm = runes ''ascii'' then themeAscii
      else if nm = runes ''plain'' then themePlain
      else themeUnicode)"

section \<open>stripAnsi and maxLineWidth\<close>

definition isAsciiLetter :: "rune \<Rightarrow> bool" where
  "isAsciiLetter r \<longleftrightarrow> (97 \<le> r \<and> r \<le> 122) \<or> (65 \<le> r \<and> r \<le> 90)"

text \<open>
  The loop of \<^verbatim>\<open>stripAnsi\<close>; the first argument is the flag \<^verbatim>\<open>inEscape\<close>, the result is
  what the loop writes to the builder from here on. The escape rune \<^verbatim>\<open>0x1b\<close> is 27.
\<close>

fun stripAnsiLoop :: "bool \<Rightarrow> gostring \<Rightarrow> gostring" where
  "stripAnsiLoop inEscape [] = []"
| "stripAnsiLoop inEscape (r # rs) =
     (if r = 27 then stripAnsiLoop True rs
      else if inEscape then
        (if isAsciiLetter r then stripAnsiLoop False rs else stripAnsiLoop True rs)
      else r # stripAnsiLoop False rs)"

definition stripAnsi :: "gostring \<Rightarrow> gostring" where
  "stripAnsi str = stripAnsiLoop False str"

fun maxLineWidthLoop :: "int \<Rightarrow> gostring list \<Rightarrow> int" where
  "maxLineWidthLoop mx [] = mx"
| "maxLineWidthLoop mx (line # lines) =
     (let l = RuneCountInString (stripAnsi line)
      in maxLineWidthLoop (if l > mx then l else mx) lines)"

definition maxLineWidth :: "gostring list \<Rightarrow> int" where
  "maxLineWidth lines = maxLineWidthLoop 0 lines"

section \<open>createBox\<close>

text \<open>The closure \<^verbatim>\<open>border\<close> of \<^verbatim>\<open>createBox\<close>.\<close>

definition border :: "color option \<Rightarrow> gostring \<Rightarrow> gostring" where
  "border boxColor char = (case boxColor of Some c \<Rightarrow> Sprint c char | None \<Rightarrow> char)"

text \<open>The inner width \<^verbatim>\<open>maxWidth\<close>, as the first lines of \<^verbatim>\<open>createBox\<close> compute it.\<close>

definition boxMaxWidth :: "gostring list \<Rightarrow> gostring \<Rightarrow> int \<Rightarrow> int" where
  "boxMaxWidth lines boxTitle hpadding =
     (let maxWidth = wrap64 (maxLineWidth lines + wrap64 (2 * hpadding))
      in if boxTitle \<noteq> [] then
           (let titleLen = RuneCountInString (stripAnsi boxTitle)
            in if titleLen > maxWidth then titleLen else maxWidth)
         else maxWidth)"

definition topBorder ::
  "color option \<Rightarrow> gostring \<Rightarrow> color option \<Rightarrow> Theme \<Rightarrow> int \<Rightarrow> error + gostring" where
  "topBorder boxColor boxTitle titleColor theme maxWidth =
     (let top' = border boxColor (themeAt theme ''NW'')
      in if boxTitle \<noteq> [] then
           (let title = (case titleColor of Some c \<Rightarrow> Sprint c boxTitle | None \<Rightarrow> boxTitle);
                rest = wrap64 (maxWidth - RuneCountInString (stripAnsi boxTitle))
            in case repeatChar (themeAt theme ''WE'') rest of
                 Inl e \<Rightarrow> Inl e
               | Inr fill \<Rightarrow>
                   Inr (top' @ title @ border boxColor fill @ border boxColor (themeAt theme ''NE'')))
         else
           (case repeatChar (themeAt theme ''WE'') maxWidth of
              Inl e \<Rightarrow> Inl e
            | Inr fill \<Rightarrow> Inr (top' @ border boxColor fill @ border boxColor (themeAt theme ''NE''))))"

text \<open>
  The two loops \<^verbatim>\<open>for i := 0; i < vpadding; i++\<close>; the first argument counts the
  iterations left.
\<close>

fun paddingLines :: "nat \<Rightarrow> color option \<Rightarrow> Theme \<Rightarrow> int \<Rightarrow> error + gostring list" where
  "paddingLines 0 boxColor theme maxWidth = Inr []"
| "paddingLines (Suc n) boxColor theme maxWidth =
     (case Repeat (runes '' '') maxWidth of
        Inl e \<Rightarrow> Inl e
      | Inr spaces \<Rightarrow>
          (case paddingLines n boxColor theme maxWidth of
             Inl e \<Rightarrow> Inl e
           | Inr more \<Rightarrow>
               Inr ((border boxColor (themeAt theme ''NS'') @ spaces
                       @ border boxColor (themeAt theme ''NS'')) # more)))"

text \<open>The loop over the content lines.\<close>

fun contentLines ::
  "gostring list \<Rightarrow> color option \<Rightarrow> color option \<Rightarrow> Theme \<Rightarrow> int \<Rightarrow> int \<Rightarrow> error + gostring list"
  where
  "contentLines [] boxColor contentColor theme maxWidth hpadding = Inr []"
| "contentLines (line # lines) boxColor contentColor theme maxWidth hpadding =
     (let stripped = stripAnsi line
      in case Repeat (runes '' '') hpadding of
           Inl e \<Rightarrow> Inl e
         | Inr padLeft \<Rightarrow>
      (case Repeat (runes '' '') hpadding of
           Inl e \<Rightarrow> Inl e
         | Inr padRight \<Rightarrow>
      (let content = (case contentColor of Some c \<Rightarrow> Sprint c line | None \<Rightarrow> line);
           totalPadding = wrap64 (maxWidth - RuneCountInString stripped)
       in case Repeat (runes '' '') (wrap64 (totalPadding - wrap64 (2 * hpadding))) of
            Inl e \<Rightarrow> Inl e
          | Inr fill \<Rightarrow>
       (case contentLines lines boxColor contentColor theme maxWidth hpadding of
            Inl e \<Rightarrow> Inl e
          | Inr more \<Rightarrow>
              Inr ((border boxColor (themeAt theme ''NS'') @ padLeft @ content @ padRight @ fill
                      @ border boxColor (themeAt theme ''NS'')) # more)))))"

definition bottomBorder :: "color option \<Rightarrow> Theme \<Rightarrow> int \<Rightarrow> error + gostring" where
  "bottomBorder boxColor theme maxWidth =
     (case repeatChar (themeAt theme ''WE'') maxWidth of
        Inl e \<Rightarrow> Inl e
      | Inr fill \<Rightarrow>
          Inr (border boxColor (themeAt theme ''SW'') @ border boxColor fill
                 @ border boxColor (themeAt theme ''SE'')))"

definition createBox ::
  "gostring list \<Rightarrow> color option \<Rightarrow> color option \<Rightarrow> gostring \<Rightarrow> color option \<Rightarrow> Theme
     \<Rightarrow> int \<Rightarrow> int \<Rightarrow> error + gostring list" where
  "createBox lines boxColor contentColor boxTitle titleColor theme vpadding hpadding =
     (let maxWidth = boxMaxWidth lines boxTitle hpadding
      in case topBorder boxColor boxTitle titleColor theme maxWidth of
           Inl e \<Rightarrow> Inl e
         | Inr top' \<Rightarrow>
      (case paddingLines (nat vpadding) boxColor theme maxWidth of
           Inl e \<Rightarrow> Inl e
         | Inr padTop \<Rightarrow>
      (case contentLines lines boxColor contentColor theme maxWidth hpadding of
           Inl e \<Rightarrow> Inl e
         | Inr body \<Rightarrow>
      (case paddingLines (nat vpadding) boxColor theme maxWidth of
           Inl e \<Rightarrow> Inl e
         | Inr padBottom \<Rightarrow>
      (case bottomBorder boxColor theme maxWidth of
           Inl e \<Rightarrow> Inl e
         | Inr bottom \<Rightarrow> Inr ([top'] @ padTop @ body @ padBottom @ [bottom]))))))"

section \<open>parseColor\<close>

text \<open>
  \<^verbatim>\<open>strings.ToLower\<close> maps each rune by the Unicode table of the Go library. The model
  lowers the ASCII capitals and the two runes beyond ASCII whose lower case is an ASCII
  letter (U+0130 and the Kelvin sign U+212A) and leaves every other rune as it is; the
  table maps those to runes beyond ASCII, so the comparisons of \<^verbatim>\<open>parseColor\<close> with its
  ASCII names decide the same.
\<close>

definition toLowerRune :: "rune \<Rightarrow> rune" where
  "toLowerRune r =
     (if 65 \<le> r \<and> r \<le> 90 then r + 32
      else if r = 304 then 105
      else if r = 8490 then 107
      else r)"

definition ToLower :: "gostring \<Rightarrow> gostring" where
  "ToLower s = map toLowerRune s"

text \<open>
  \<^verbatim>\<open>strconv.Atoi\<close>: an optional sign and at least one decimal digit, nothing else; a value
  outside the 64-bit range is an error. \<open>None\<close> is the error.
\<close>

definition isDigit :: "rune \<Rightarrow> bool" where
  "isDigit r \<longleftrightarrow> 48 \<le> r \<and> r \<le> 57"

definition decimalValue :: "gostring \<Rightarrow> int" where
  "decimalValue ds = foldl (\<lambda>n ch. n * 10 + (int ch - 48)) 0 ds"

definition Atoi :: "gostring \<Rightarrow> int option" where
  "Atoi s =
     (let neg = (s \<noteq> [] \<and> hd s = 45);
          ds = (if s \<noteq> [] \<and> (hd s = 45 \<or> hd s = 43) then tl s else s)
      in if ds = [] \<or> \<not> list_all isDigit ds then None
         else (let n = (if neg then - decimalValue ds else decimalValue ds)
               in if - maxInt - 1 \<le> n \<and> n \<le> maxInt then Some n else None))"

text \<open>
  The attributes of the library: \<^verbatim>\<open>FgBlack\<close> to \<^verbatim>\<open>FgWhite\<close> are 30 to 37,
  \<^verbatim>\<open>FgHiBlack\<close> to \<^verbatim>\<open>FgHiWhite\<close> are 90 to 97, \<^verbatim>\<open>Reset\<close> is 0. The result is never nil.
\<close>

definition parseColor :: "gostring \<Rightarrow> color" where
  "parseColor nm =
     (let l = ToLower nm
      in if l = runes ''black'' then [30]
         else if l = runes ''red'' then [31]
         else if l = runes ''green'' then [32]
         else if l = runes ''yellow'' then [33]
         else if l = runes ''blue'' then [34]
         else if l = runes ''magenta'' then [35]
         else if l = runes ''cyan'' then [36]
         else if l = runes ''white'' then [37]
         else if l = runes ''gray'' \<or> l = runes ''bright_black'' then [90]
         else if l = runes ''bright_red'' then [91]
         else if l = runes ''bright_green'' then [92]
         else if l = runes ''bright_yellow'' then [93]
         else if l = runes ''bright_blue'' then [94]
         else if l = runes ''bright_magenta'' then [95]
         else if l = runes ''bright_cyan'' then [96]
         else if l = runes ''bright_white'' then [97]
         else (case Atoi nm of Some num \<Rightarrow> [wrap64 (90 + num)] | None \<Rightarrow> [0]))"

section \<open>The color theme engine\<close>

text \<open>
  The struct \<^verbatim>\<open>ColorTheme\<close> of the later revision of the file (the one with
  \<^verbatim>\<open>resolveTextInput\<close>); the earlier revision \<^verbatim>\<open>box.go\<close> has the first two fields only.
  \<^verbatim>\<open>usedColors\<close> is a \<^verbatim>\<open>map[int]bool\<close> in which every stored value is true: a set, whose
  \<^verbatim>\<open>len\<close> is its cardinality.

  The pseudo-random source is an input: a list of raw draws, consumed from the front.
  \<^verbatim>\<open>rand.Intn(n)\<close> reduces the next raw draw into \<open>[0,n)\<close>, so every outcome of the real
  source is the outcome of some list.
\<close>

record ColorTheme =
  name :: gostring
  startColor :: int
  usedColors :: "int set"
  colorIndex :: int

definition Intn :: "int \<Rightarrow> nat list \<Rightarrow> error + (int \<times> nat list)" where
  "Intn n rnd = (case rnd of [] \<Rightarrow> Inl NoMoreDraws | r # rest \<Rightarrow> Inr (int r mod n, rest))"

definition newColorTheme :: "gostring \<Rightarrow> nat list \<Rightarrow> error + (ColorTheme \<times> nat list)" where
  "newColorTheme nm rnd =
     (case Intn 216 rnd of
        Inl e \<Rightarrow> Inl e
      | Inr (start, rnd') \<Rightarrow>
          Inr (\<lparr>name = nm, startColor = start, usedColors = {}, colorIndex = 0\<rparr>, rnd'))"

text \<open>
  The loop \<^verbatim>\<open>for { color := rand.Intn(216); if !theme.usedColors[color] { ... return color } }\<close>
  of the random theme: it draws until it finds an unused color. It returns the color, the
  new tracking set and the rest of the source.
\<close>

fun randomLoop :: "int set \<Rightarrow> nat list \<Rightarrow> error + (int \<times> int set \<times> nat list)" where
  "randomLoop used [] = Inl NoMoreDraws"
| "randomLoop used (r # rnd) =
     (let color = int r mod 216
      in if color \<notin> used then Inr (color, insert color used, rnd)
         else randomLoop used rnd)"

text \<open>
  The loop \<^verbatim>\<open>for i := 0; i < len(candidateColors); i++\<close> of the flag themes, followed by
  the fallback after it.
\<close>

function flagLoop :: "int list \<Rightarrow> ColorTheme \<Rightarrow> nat \<Rightarrow> error + (int \<times> ColorTheme)" where
  "flagLoop candidateColors theme i =
     (if i < length candidateColors then
        (let colorIndex' = goRem (wrap64 (colorIndex theme + int i)) (int (length candidateColors))
         in if colorIndex' < 0 \<or> int (length candidateColors) \<le> colorIndex' then Inl IndexOutOfRange
            else
              (let color = candidateColors ! nat colorIndex'
               in if color \<notin> usedColors theme then
                    Inr (color,
                         theme\<lparr>usedColors := insert color (usedColors theme),
                               colorIndex :=
                                 goRem (wrap64 (colorIndex' + 1)) (int (length candidateColors))\<rparr>)
                  else flagLoop candidateColors theme (Suc i)))
      else
        (case candidateColors of
           [] \<Rightarrow> Inl IndexOutOfRange
         | color # _ \<Rightarrow> Inr (color, theme\<lparr>usedColors := {color}, colorIndex := 1\<rparr>)))"
  by pat_completeness auto
termination
  by (relation "measure (\<lambda>(cs, th, i). length cs - i)") auto

declare flagLoop.simps [simp del]

definition flagTheme :: "int list \<Rightarrow> ColorTheme \<Rightarrow> error + (int \<times> ColorTheme)" where
  "flagTheme candidateColors theme =
     (if length candidateColors > 0 then
        (let theme' = (if card (usedColors theme) \<ge> length candidateColors
                       then theme\<lparr>usedColors := {}\<rparr> else theme)
         in flagLoop candidateColors theme' 0)
      else Inr (startColor theme, theme))"

text \<open>
  The palettes that the \<^verbatim>\<open>switch\<close> of the later \<^verbatim>\<open>getNextColor\<close> assigns to
  \<^verbatim>\<open>candidateColors\<close> for the five flag themes.
\<close>

definition candidateColors :: "gostring \<Rightarrow> int list" where
  "candidateColors nm =
     (if nm = runes ''pride'' then [196, 208, 226, 46, 21, 129]
      else if nm = runes ''trans'' then [51, 213, 15]
      else if nm = runes ''bi'' then [213, 129, 21]
      else if nm = runes ''pan'' then [213, 226, 21]
      else if nm = runes ''nb'' then [226, 15, 129, 0]
      else [])"

text \<open>
  \<^verbatim>\<open>getNextColor\<close> of the later revision. It ignores its argument \<^verbatim>\<open>index\<close> and keeps
  its own counters in the theme. The result is the color index, the updated theme and
  the rest of the random source.
\<close>

definition getNextColor ::
  "ColorTheme \<Rightarrow> int \<Rightarrow> nat list \<Rightarrow> error + (int \<times> ColorTheme \<times> nat list)" where
  "getNextColor theme index rnd =
     (if name theme = runes ''random'' then
        (let theme' = (if card (usedColors theme) \<ge> 216 then theme\<lparr>usedColors := {}\<rparr> else theme)
         in case randomLoop (usedColors theme') rnd of
              Inl e \<Rightarrow> Inl e
            | Inr (color, used, rnd') \<Rightarrow> Inr (color, theme'\<lparr>usedColors := used\<rparr>, rnd'))
      else if name theme = runes ''gradient'' then
        Inr (goRem (wrap64 (startColor theme + colorIndex theme)) 216,
             theme\<lparr>colorIndex := wrap64 (colorIndex theme + 1)\<rparr>, rnd)
      else if name theme = runes ''rainbow'' then
        Inr (goRem (colorIndex theme) 216, theme\<lparr>colorIndex := wrap64 (colorIndex theme + 1)\<rparr>, rnd)
      else if name theme = runes ''pride'' \<or> name theme = runes ''trans'' \<or> name theme = runes ''bi''
              \<or> name theme = runes ''pan'' \<or> name theme = runes ''nb'' then
        (case flagTheme (candidateColors (name theme)) theme of
           Inl e \<Rightarrow> Inl e
         | Inr (color, theme') \<Rightarrow> Inr (color, theme', rnd))
      else Inr (startColor theme, theme, rnd))"

text \<open>
  \<^verbatim>\<open>getNextColor\<close> of the earlier revision \<^verbatim>\<open>box.go\<close>: a function of the theme and the
  index, without tracking; it leaves the theme as it is.
\<close>

definition sliceAt :: "int list \<Rightarrow> int \<Rightarrow> error + int" where
  "sliceAt xs i = (if 0 \<le> i \<and> i < int (length xs) then Inr (xs ! nat i) else Inl IndexOutOfRange)"

definition prideColors :: "int list" where "prideColors = [196, 208, 226, 46, 21, 129]"
definition transColors :: "int list" where "transColors = [51, 213, 15, 213, 51]"
definition biColors :: "int list" where "biColors = [213, 129, 21]"
definition panColors :: "int list" where "panColors = [213, 226, 21]"
definition nbColors :: "int list" where "nbColors = [226, 15, 129, 0]"

definition getNextColor_indexed ::
  "ColorTheme \<Rightarrow> int \<Rightarrow> nat list \<Rightarrow> error + (int \<times> ColorTheme \<times> nat list)" where
  "getNextColor_indexed theme index rnd =
     (let palette = (\<lambda>colors.
            case sliceAt colors (goRem index (int (length colors))) of
              Inl e \<Rightarrow> Inl e
            | Inr c \<Rightarrow> Inr (c, theme, rnd))
      in if name theme = runes ''random'' then
           (case Intn 216 rnd of Inl e \<Rightarrow> Inl e | Inr (c, rnd') \<Rightarrow> Inr (c, theme, rnd'))
         else if name theme = runes ''gradient'' then
           Inr (goRem (wrap64 (startColor theme + index)) 216, theme, rnd)
         else if name theme = runes ''rainbow'' then Inr (goRem index 216, theme, rnd)
         else if name theme = runes ''pride'' then palette prideColors
         else if name theme = runes ''trans'' then palette transColors
         else if name theme = runes ''bi'' then palette biColors
         else if name theme = runes ''pan'' then palette panColors
         else if name theme = runes ''nb'' then palette nbColors
         else Inr (startColor theme, theme, rnd))"

text \<open>
  \<^verbatim>\<open>getColorFromTheme\<close> is the same in both revisions; the revision's \<^verbatim>\<open>getNextColor\<close> is
  its first argument.
\<close>

type_synonym engine = "ColorTheme \<Rightarrow> int \<Rightarrow> nat list \<Rightarrow> error + (int \<times> ColorTheme \<times> nat list)"

definition getColorFromTheme ::
  "engine \<Rightarrow> ColorTheme \<Rightarrow> int \<Rightarrow> nat list \<Rightarrow> error + (color \<times> ColorTheme \<times> nat list)" where
  "getColorFromTheme gnc theme index rnd =
     (case gnc theme index rnd of
        Inl e \<Rightarrow> Inl e
      | Inr (colorCode, theme', rnd') \<Rightarrow> Inr ([38, 5, colorCode], theme', rnd'))"

section \<open>createNestedBoxes\<close>

text \<open>
  The attributes of layer \<^verbatim>\<open>i\<close>, as the body of the loop of \<^verbatim>\<open>createNestedBoxes\<close> resolves
  them. The loop counter starts at 0 and only grows, so it is a natural number.
\<close>

definition layerBoxColor ::
  "engine \<Rightarrow> ColorTheme option \<Rightarrow> gostring list \<Rightarrow> nat \<Rightarrow> nat list
     \<Rightarrow> error + (color option \<times> ColorTheme option \<times> nat list)" where
  "layerBoxColor gnc colorTheme boxColors i rnd =
     (case colorTheme of
        Some theme \<Rightarrow>
          (case getColorFromTheme gnc theme (int i) rnd of
             Inl e \<Rightarrow> Inl e
           | Inr (c, theme', rnd') \<Rightarrow> Inr (Some c, Some theme', rnd'))
      | None \<Rightarrow>
          Inr (if length boxColors > 0 then
                 (if i < length boxColors then Some (parseColor (boxColors ! i))
                  else Some (parseColor (boxColors ! 0)))
               else None,
               None, rnd))"

definition layerTitleColor :: "gostring list \<Rightarrow> nat \<Rightarrow> color option" where
  "layerTitleColor titleColors i =
     (if length titleColors > 0 then
        (if i < length titleColors then Some (parseColor (titleColors ! i))
         else Some (parseColor (titleColors ! 0)))
      else None)"

definition layerTitle :: "gostring list \<Rightarrow> nat \<Rightarrow> gostring" where
  "layerTitle boxTitles i =
     (if length boxTitles > 0 then
        (if i < length boxTitles then boxTitles ! i else [])
      else [])"

text \<open>
  The loop \<^verbatim>\<open>for i := 0; i < depth; i++\<close>. Each iteration puts a box around the lines
  built so far. The color theme (changed by the engine of the later revision) and the
  random source are passed on from iteration to iteration.
\<close>

function nestLoop ::
  "engine \<Rightarrow> nat \<Rightarrow> int \<Rightarrow> gostring list \<Rightarrow> gostring list \<Rightarrow> gostring list \<Rightarrow> gostring list
     \<Rightarrow> Theme \<Rightarrow> int \<Rightarrow> int \<Rightarrow> color option \<Rightarrow> ColorTheme option \<Rightarrow> nat list
     \<Rightarrow> error + gostring list" where
  "nestLoop gnc i depth lines boxColors titleColors boxTitles theme vpadding hpadding
       contentColor colorTheme rnd =
     (if int i < depth then
        (case layerBoxColor gnc colorTheme boxColors i rnd of
           Inl e \<Rightarrow> Inl e
         | Inr (boxColor, colorTheme', rnd') \<Rightarrow>
             (let titleColor = layerTitleColor titleColors i;
                  boxTitle = layerTitle boxTitles i;
                  thisContentColor = (if int i = depth - 1 then contentColor else None)
              in case createBox lines boxColor thisContentColor boxTitle titleColor theme
                        vpadding hpadding of
                   Inl e \<Rightarrow> Inl e
                 | Inr lines' \<Rightarrow>
                     nestLoop gnc (Suc i) depth lines' boxColors titleColors boxTitles theme
                       vpadding hpadding contentColor colorTheme' rnd'))
      else Inr lines)"
  by pat_completeness auto
termination
  by (relation "measure (\<lambda>(gnc, i, depth, rest). nat (depth - int i))") auto

declare nestLoop.simps [simp del]

text \<open>
  \<^verbatim>\<open>createNestedBoxes\<close> is the same text in both revisions that have a color theme; the
  revision's \<^verbatim>\<open>getNextColor\<close> is the first argument and the random source the last.
\<close>

definition createNestedBoxes ::
  "engine \<Rightarrow> gostring list \<Rightarrow> int \<Rightarrow> gostring list \<Rightarrow> gostring list \<Rightarrow> gostring list
     \<Rightarrow> Theme \<Rightarrow> int \<Rightarrow> int \<Rightarrow> color option \<Rightarrow> ColorTheme option \<Rightarrow> nat list
     \<Rightarrow> error + gostring list" where
  "createNestedBoxes gnc lines depth boxColors titleColors boxTitles theme vpadding hpadding
       contentColor colorTheme rnd =
     nestLoop gnc 0 depth lines boxColors titleColors boxTitles theme vpadding hpadding
       contentColor colorTheme rnd"

section \<open>The first revision of createNestedBoxes\<close>

text \<open>
  The first revision of the file (the one that parses its flags with the package
  \<^verbatim>\<open>flag\<close>) has no color theme. Its \<^verbatim>\<open>parseColor\<close> knows the color names only, and its
  \<^verbatim>\<open>createNestedBoxes\<close> runs the loop \<^verbatim>\<open>for i := depth - 1; i >= 0; i--\<close> and gives the
  content color to every call of \<^verbatim>\<open>createBox\<close>. \<^verbatim>\<open>createBox\<close> is the same in all
  revisions.
\<close>

definition parseColor_first :: "gostring \<Rightarrow> color" where
  "parseColor_first nm =
     (let l = ToLower nm
      in if l = runes ''black'' then [30]
         else if l = runes ''red'' then [31]
         else if l = runes ''green'' then [32]
         else if l = runes ''yellow'' then [33]
         else if l = runes ''blue'' then [34]
         else if l = runes ''magenta'' then [35]
         else if l = runes ''cyan'' then [36]
         else if l = runes ''white'' then [37]
         else if l = runes ''gray'' \<or> l = runes ''bright_black'' then [90]
         else if l = runes ''bright_red'' then [91]
         else if l = runes ''bright_green'' then [92]
         else if l = runes ''bright_yellow'' then [93]
         else if l = runes ''bright_blue'' then [94]
         else if l = runes ''bright_magenta'' then [95]
         else if l = runes ''bright_cyan'' then [96]
         else if l = runes ''bright_white'' then [97]
         else [0])"

text \<open>
  The first argument of the loop is \<open>i + 1\<close>, the number of iterations left; the body
  runs for \<open>i\<close>.
\<close>

fun nestLoop_first ::
  "nat \<Rightarrow> gostring list \<Rightarrow> gostring list \<Rightarrow> gostring list \<Rightarrow> gostring list
     \<Rightarrow> Theme \<Rightarrow> int \<Rightarrow> int \<Rightarrow> color option \<Rightarrow> error + gostring list" where
  "nestLoop_first 0 lines boxColors titleColors boxTitles theme vpadding hpadding contentColor =
     Inr lines"
| "nestLoop_first (Suc i) lines boxColors titleColors boxTitles theme vpadding hpadding
       contentColor =
     (let boxColor =
            (if length boxColors > 0 then
               (if i < length boxColors then Some (parseColor_first (boxColors ! i))
                else Some (parseColor_first (boxColors ! 0)))
             else None);
          titleColor =
            (if length titleColors > 0 then
               (if i < length titleColors then Some (parseColor_first (titleColors ! i))
                else Some (parseColor_first (titleColors ! 0)))
             else None);
          boxTitle = layerTitle boxTitles i
      in case createBox lines boxColor contentColor boxTitle titleColor theme vpadding hpadding of
           Inl e \<Rightarrow> Inl e
         | Inr lines' \<Rightarrow>
             nestLoop_first i lines' boxColors titleColors boxTitles theme vpadding hpadding
               contentColor)"

definition createNestedBoxes_first ::
  "gostring list \<Rightarrow> int \<Rightarrow> gostring list \<Rightarrow> gostring list \<Rightarrow> gostring list
     \<Rightarrow> Theme \<Rightarrow> int \<Rightarrow> int \<Rightarrow> color option \<Rightarrow> error + gostring list" where
  "createNestedBoxes_first lines depth boxColors titleColors boxTitles theme vpadding hpadding
       contentColor =
     nestLoop_first (nat depth) lines boxColors titleColors boxTitles theme vpadding hpadding
       contentColor"

section \<open>Notions used in the statements\<close>

text \<open>
  The display width of a line, as \<^verbatim>\<open>maxLineWidth\<close> and \<^verbatim>\<open>createBox\<close> measure it: the number
  of runes left by \<^verbatim>\<open>stripAnsi\<close>.
\<close>

definition displayWidth :: "gostring \<Rightarrow> int" where
  "displayWidth s = RuneCountInString (stripAnsi s)"

text \<open>
  The value of the flag \<^verbatim>\<open>inEscape\<close> when the loop of \<^verbatim>\<open>stripAnsi\<close> leaves the string. A
  string is terminated when the loop, started outside an escape sequence, ends outside
  one: every escape sequence in it reaches its final letter.
\<close>

fun escState :: "bool \<Rightarrow> gostring \<Rightarrow> bool" where
  "escState inEscape [] = inEscape"
| "escState inEscape (r # rs) =
     escState (if r = 27 then True else if inEscape then \<not> isAsciiLetter r else False) rs"

definition terminated :: "gostring \<Rightarrow> bool" where
  "terminated s \<longleftrightarrow> \<not> escState False s"



text \<open>
  The reading of a plain box that the specification describes for the round trip. It is
  not part of the program: drop the top and the bottom border line, remove the border
  glyph (a space in the plain set) at each end of every other line, and trim the spaces
  at both ends.
\<close>

definition trimSpaces :: "gostring \<Rightarrow> gostring" where
  "trimSpaces s = rev (dropWhile (\<lambda>r. r = 32) (rev (dropWhile (\<lambda>r. r = 32) s)))"

definition unboxPlain :: "gostring list \<Rightarrow> gostring list" where
  "unboxPlain box = map (\<lambda>l. trimSpaces (butlast (tl l))) (butlast (tl box))"

text \<open>
  \<open>n\<close> consecutive calls of the engine, with the indices \<open>i\<close>, \<open>i + 1\<close>, ... that
  the loop of \<^verbatim>\<open>createNestedBoxes\<close> passes, each call on the theme and the random source
  the call before left. The result lists the color indices in the order of the calls.
\<close>

fun calls ::
  "engine \<Rightarrow> nat \<Rightarrow> nat \<Rightarrow> ColorTheme \<Rightarrow> nat list \<Rightarrow> error + (int list \<times> ColorTheme \<times> nat list)"
  where
  "calls gnc 0 i theme rnd = Inr ([], theme, rnd)"
| "calls gnc (Suc n) i theme rnd =
     (case gnc theme (int i) rnd of
        Inl e \<Rightarrow> Inl e
      | Inr (c, theme', rnd') \<Rightarrow>
          (case calls gnc n (Suc i) theme' rnd' of
             Inl e \<Rightarrow> Inl e
           | Inr (cs, theme'', rnd'') \<Rightarrow> Inr (c # cs, theme'', rnd'')))"

text \<open>
  The rule of the specification for an attribute list: the element at position \<open>i\<close> if
  there is one, else the first element of a list that is not empty, else nothing.
\<close>

definition resolveAt :: "'a list \<Rightarrow> nat \<Rightarrow> 'a option" where
  "resolveAt xs i =
     (if i < length xs then Some (xs ! i) else if xs \<noteq> [] then Some (hd xs) else None)"

text \<open>
  The length of a Go string is an \<^verbatim>\<open>int\<close>: a string of the program has at most
  \<open>maxInt\<close> bytes, hence at most as many runes.
\<close>

definition goString :: "gostring \<Rightarrow> bool" where
  "goString s \<longleftrightarrow> int (length s) \<le> maxInt"

section \<open>Properties of stripAnsi\<close>

lemma stripAnsiLoop_no_escape: "27 \<notin> set (stripAnsiLoop b s)"
  by (induction s arbitrary: b) auto

lemma stripAnsiLoop_clean: "27 \<notin> set s \<Longrightarrow> stripAnsiLoop False s = s"
  by (induction s) auto

text \<open>
  Claim C10. \<^verbatim>\<open>stripAnsi\<close> is idempotent, because its output never contains the escape
  rune 0x1B.
\<close>

theorem stripAnsi_idempotent:
  "stripAnsi (stripAnsi s) = stripAnsi s \<and> 27 \<notin> set (stripAnsi s)"
  unfolding stripAnsi_def
  using stripAnsiLoop_no_escape [of False s] stripAnsiLoop_clean [of "stripAnsiLoop False s"]
  by simp

section \<open>The number of lines\<close>





section \<open>The inner width\<close>

lemma wrap64_id: "- 9223372036854775808 \<le> x \<Longrightarrow> x \<le> maxInt \<Longrightarrow> wrap64 x = x"
  by (simp add: wrap64_def maxInt_def)

lemma maxLineWidthLoop_ge: "mx \<le> maxLineWidthLoop mx lines"
proof (induction lines arbitrary: mx)
  case Nil
  show ?case by simp
next
  case (Cons l ls)
  have "mx \<le> (if RuneCountInString (stripAnsi l) > mx then RuneCountInString (stripAnsi l) else mx)"
    by simp
  also have "\<dots> \<le> maxLineWidthLoop \<dots> ls" by (rule Cons.IH)
  finally show ?case by (simp add: Let_def)
qed

lemma maxLineWidthLoop_member:
  "l \<in> set lines \<Longrightarrow> RuneCountInString (stripAnsi l) \<le> maxLineWidthLoop mx lines"
proof (induction lines arbitrary: mx)
  case Nil
  then show ?case by simp
next
  case (Cons a ls)
  show ?case
  proof (cases "l = a")
    case True
    have "RuneCountInString (stripAnsi a)
            \<le> (if RuneCountInString (stripAnsi a) > mx then RuneCountInString (stripAnsi a) else mx)"
      by simp
    also have "\<dots> \<le> maxLineWidthLoop \<dots> ls" by (rule maxLineWidthLoop_ge)
    finally show ?thesis using True by (simp add: Let_def)
  next
    case False
    with Cons.prems have "l \<in> set ls" by simp
    from Cons.IH [OF this] show ?thesis by (simp add: Let_def)
  qed
qed

lemma maxLineWidth_nonneg: "0 \<le> maxLineWidth lines"
  unfolding maxLineWidth_def by (rule maxLineWidthLoop_ge)

lemma maxLineWidth_member:
  "l \<in> set lines \<Longrightarrow> RuneCountInString (stripAnsi l) \<le> maxLineWidth lines"
  unfolding maxLineWidth_def by (rule maxLineWidthLoop_member)

lemma maxLineWidthLoop_upper:
  "mx \<le> b \<Longrightarrow> \<forall>l\<in>set lines. RuneCountInString (stripAnsi l) \<le> b \<Longrightarrow> maxLineWidthLoop mx lines \<le> b"
  by (induction lines arbitrary: mx) (auto simp: Let_def)

lemma maxLineWidth_upper:
  "0 \<le> b \<Longrightarrow> \<forall>l\<in>set lines. RuneCountInString (stripAnsi l) \<le> b \<Longrightarrow> maxLineWidth lines \<le> b"
  unfolding maxLineWidth_def by (rule maxLineWidthLoop_upper)

text \<open>The inner width without wrap-around.\<close>

lemma boxMaxWidth_fits:
  assumes "0 \<le> hpadding" "maxLineWidth lines + 2 * hpadding \<le> maxInt"
  shows "boxMaxWidth lines boxTitle hpadding =
           (if boxTitle \<noteq> [] \<and> RuneCountInString (stripAnsi boxTitle) > maxLineWidth lines + 2 * hpadding
            then RuneCountInString (stripAnsi boxTitle) else maxLineWidth lines + 2 * hpadding)"
proof -
  have m: "0 \<le> maxLineWidth lines" by (rule maxLineWidth_nonneg)
  have "wrap64 (2 * hpadding) = 2 * hpadding"
    using assms m by (intro wrap64_id) auto
  moreover have "wrap64 (maxLineWidth lines + 2 * hpadding) = maxLineWidth lines + 2 * hpadding"
    using assms m by (intro wrap64_id) auto
  ultimately show ?thesis by (simp add: boxMaxWidth_def Let_def)
qed

section \<open>Escape sequences and display width\<close>


lemma escState_append: "escState b (s @ t) = escState (escState b s) t"
  by (induction s arbitrary: b) auto


lemma terminated_append: "terminated a \<Longrightarrow> terminated (a @ b) = terminated b"
  by (simp add: terminated_def escState_append)





















section \<open>The width of the lines of a box\<close>


lemma concat_replicate_single: "concat (replicate k [g]) = replicate k g"
  by (induction k) auto

lemma Repeat_single: "0 \<le> n \<Longrightarrow> Repeat [g] n = Inr (replicate (nat n) g)"
  by (simp add: Repeat_def concat_replicate_single)


lemma Repeat_space: "0 \<le> n \<Longrightarrow> Repeat (runes '' '') n = Inr (replicate (nat n) 32)"
  by (simp add: runes_def Repeat_single)











lemma stripAnsiLoop_length_le: "length (stripAnsiLoop b s) \<le> length s"
  by (induction s arbitrary: b) (auto intro: le_SucI)

lemma displayWidth_le_length: "displayWidth s \<le> int (length s)"
  by (simp add: displayWidth_def RuneCountInString_def stripAnsi_def stripAnsiLoop_length_le)

lemma goString_width: "goString s \<Longrightarrow> displayWidth s \<le> maxInt"
  using displayWidth_le_length [of s] by (simp add: goString_def)



















section \<open>createBox returns\<close>

lemma Repeat_succeeds: "0 \<le> n \<Longrightarrow> \<exists>r. Repeat s n = Inr r"
  by (simp add: Repeat_def)

lemma topBorder_succeeds:
  assumes "maxWidth \<le> maxInt" "0 \<le> maxWidth"
    and "boxTitle \<noteq> [] \<longrightarrow> displayWidth boxTitle \<le> maxWidth"
  shows "\<exists>l. topBorder boxColor boxTitle titleColor theme maxWidth = Inr l"
proof (cases "boxTitle = []")
  case True
  with Repeat_succeeds [OF assms(2), of "themeAt theme ''WE''"] show ?thesis
    by (auto simp: topBorder_def repeatChar_def)
next
  case False
  let ?rest = "maxWidth - RuneCountInString (stripAnsi boxTitle)"
  have "0 \<le> displayWidth boxTitle" by (simp add: displayWidth_def RuneCountInString_def)
  with assms False have r: "0 \<le> ?rest" "?rest \<le> maxInt" by (simp_all add: displayWidth_def)
  then have "wrap64 ?rest = ?rest" by (intro wrap64_id) auto
  with False Repeat_succeeds [OF r(1), of "themeAt theme ''WE''"] show ?thesis
    by (auto simp: topBorder_def repeatChar_def Let_def)
qed


lemma bottomBorder_succeeds:
  "0 \<le> maxWidth \<Longrightarrow> \<exists>l. bottomBorder boxColor theme maxWidth = Inr l"
  by (simp add: bottomBorder_def repeatChar_def Repeat_def)

text \<open>The repeat count of the fill of a content line, as the loop computes it.\<close>

lemma fill_count:
  assumes "0 \<le> hpadding" "maxWidth \<le> maxInt" "displayWidth line + 2 * hpadding \<le> maxWidth"
  shows "wrap64 (wrap64 (maxWidth - RuneCountInString (stripAnsi line)) - wrap64 (2 * hpadding))
           = maxWidth - displayWidth line - 2 * hpadding"
proof -
  have w0: "0 \<le> displayWidth line" by (simp add: displayWidth_def RuneCountInString_def)
  have "wrap64 (maxWidth - displayWidth line) = maxWidth - displayWidth line"
    using w0 assms by (intro wrap64_id) auto
  moreover have "wrap64 (2 * hpadding) = 2 * hpadding"
    using w0 assms by (intro wrap64_id) auto
  moreover have "wrap64 (maxWidth - displayWidth line - 2 * hpadding)
                   = maxWidth - displayWidth line - 2 * hpadding"
    using w0 assms by (intro wrap64_id) auto
  ultimately show ?thesis by (simp add: displayWidth_def)
qed





section \<open>Nested boxes return\<close>






lemma nestLoop_step:
  assumes "int i < depth"
    and "layerBoxColor gnc colorTheme boxColors i rnd = Inr (boxColor, colorTheme', rnd')"
    and "createBox lines boxColor (if int i = depth - 1 then contentColor else None)
           (layerTitle boxTitles i) (layerTitleColor titleColors i) theme vpadding hpadding
         = Inr lines'"
  shows "nestLoop gnc i depth lines boxColors titleColors boxTitles theme vpadding hpadding
           contentColor colorTheme rnd
         = nestLoop gnc (Suc i) depth lines' boxColors titleColors boxTitles theme vpadding
             hpadding contentColor colorTheme' rnd'"
  using assms by (subst nestLoop.simps) (simp add: Let_def)

lemma nestLoop_done:
  "\<not> int i < depth \<Longrightarrow>
     nestLoop gnc i depth lines boxColors titleColors boxTitles theme vpadding hpadding
       contentColor colorTheme rnd = Inr lines"
  by (subst nestLoop.simps) simp






section \<open>The round trip through a plain box\<close>

lemma trimSpaces_fill:
  assumes "l = [] \<or> (hd l \<noteq> 32 \<and> last l \<noteq> 32)"
  shows "trimSpaces (l @ replicate k 32) = l"
proof (cases "l = []")
  case True
  then show ?thesis by (simp add: trimSpaces_def)
next
  case False
  with assms have h: "hd l \<noteq> 32" and la: "last l \<noteq> 32" by simp_all
  from False h have d1: "dropWhile (\<lambda>r. r = 32) (l @ replicate k 32) = l @ replicate k 32"
    by (cases l) simp_all
  from False la have "hd (rev l) \<noteq> 32" by (simp add: hd_rev)
  with False have d2: "dropWhile (\<lambda>r. r = 32) (rev l) = rev l"
    by (cases "rev l") simp_all
  have "dropWhile (\<lambda>r. r = 32) (replicate k 32 @ rev l) = dropWhile (\<lambda>r. r = 32) (rev l)"
    by (rule dropWhile_append2) simp
  with d1 d2 show ?thesis by (simp add: trimSpaces_def)
qed

lemma themePlain_NS: "themeAt themePlain ''NS'' = [32]"
  by (simp add: themeAt_def themePlain_def runes_def)

lemma contentLines_plain:
  assumes m1: "maxWidth \<le> maxInt"
  shows "\<forall>l\<in>set lines. displayWidth l \<le> maxWidth
         \<Longrightarrow> contentLines lines None None themePlain maxWidth 0
             = Inr (map (\<lambda>l. 32 # l @ replicate (nat (maxWidth - displayWidth l)) 32 @ [32]) lines)"
proof (induction lines)
  case Nil
  show ?case by simp
next
  case (Cons line lines)
  from Cons.prems have fit: "displayWidth line + 2 * 0 \<le> maxWidth" by simp
  have fc: "wrap64 (wrap64 (maxWidth - RuneCountInString (stripAnsi line)) - wrap64 0)
              = maxWidth - displayWidth line"
    using fill_count [OF _ m1 fit] by simp
  have f0: "0 \<le> maxWidth - displayWidth line" using fit by simp
  have r0: "Repeat (runes '' '') 0 = Inr []" using Repeat_space [of 0] by simp
  from Cons fc f0 show ?case
    by (simp add: Repeat_space r0 Let_def border_def themePlain_NS)
qed

lemma createBox_plain:
  assumes fit: "maxLineWidth lines \<le> maxInt"
  shows "\<exists>t b. createBox lines None None [] None themePlain 0 0
                 = Inr ([t] @ map (\<lambda>l. 32 # l @ replicate (nat (maxLineWidth lines - displayWidth l)) 32
                                          @ [32]) lines @ [b])"
proof -
  have f: "maxLineWidth lines + 2 * 0 \<le> maxInt" using fit by simp
  have M: "boxMaxWidth lines [] 0 = maxLineWidth lines"
    using boxMaxWidth_fits [OF _ f, of "[]"] by simp
  have m0: "0 \<le> maxLineWidth lines" by (rule maxLineWidth_nonneg)
  have cl: "\<forall>l\<in>set lines. displayWidth l \<le> maxLineWidth lines"
    using maxLineWidth_member by (auto simp: displayWidth_def)
  obtain t where t: "topBorder None [] None themePlain (maxLineWidth lines) = Inr t"
    using topBorder_succeeds [OF fit m0, of "[]" None None themePlain] by auto
  obtain b where b: "bottomBorder None themePlain (maxLineWidth lines) = Inr b"
    using bottomBorder_succeeds [OF m0, of None themePlain] by blast
  show ?thesis
    using t b contentLines_plain [OF fit cl] by (simp add: createBox_def M)
qed

text \<open>
  Claim C8, as amended. For input lines (Go strings) that neither begin nor end with a
  space, rendering a box of depth 1 with the plain glyph set,
  no padding, no title and no colors, then dropping the two border lines, removing the
  border glyph at each end of a line and trimming the spaces, gives the input lines
  back.
\<close>

theorem plain_box_round_trip:
  assumes "\<forall>l\<in>set lines. l = [] \<or> (hd l \<noteq> 32 \<and> last l \<noteq> 32)"
    and "\<forall>l\<in>set lines. goString l"
  shows "\<exists>box. createNestedBoxes gnc lines 1 [] [] [] (getTheme (runes ''plain'')) 0 0 None None rnd
                 = Inr box
              \<and> unboxPlain box = lines"
proof -
  have "\<forall>l\<in>set lines. RuneCountInString (stripAnsi l) \<le> maxInt"
    using assms(2) goString_width by (auto simp: displayWidth_def)
  then have fit: "maxLineWidth lines \<le> maxInt"
    by (intro maxLineWidth_upper) (simp_all add: maxInt_def)
  from createBox_plain [OF fit] obtain t b where
    cb: "createBox lines None None [] None themePlain 0 0
           = Inr ([t] @ map (\<lambda>l. 32 # l @ replicate (nat (maxLineWidth lines - displayWidth l)) 32
                                    @ [32]) lines @ [b])"
    (is "_ = Inr ?box")
    by blast
  have th: "getTheme (runes ''plain'') = themePlain" by (simp add: getTheme_def runes_def)
  have lb: "layerBoxColor gnc None [] 0 rnd = Inr (None, None, rnd)"
    by (simp add: layerBoxColor_def)
  have cb': "createBox lines None (if int 0 = 1 - 1 then None else None) (layerTitle [] 0)
               (layerTitleColor [] 0) themePlain 0 0 = Inr ?box"
    using cb by (simp add: layerTitle_def layerTitleColor_def)
  have "nestLoop gnc 0 1 lines [] [] [] themePlain 0 0 None None rnd
          = nestLoop gnc (Suc 0) 1 ?box [] [] [] themePlain 0 0 None None rnd"
    by (rule nestLoop_step [OF _ lb cb']) simp
  also have "\<dots> = Inr ?box" by (rule nestLoop_done) simp
  finally have r: "createNestedBoxes gnc lines 1 [] [] [] (getTheme (runes ''plain'')) 0 0 None None rnd
                     = Inr ?box"
    by (simp add: createNestedBoxes_def th)
  have "unboxPlain ?box
          = map (\<lambda>l. trimSpaces (l @ replicate (nat (maxLineWidth lines - displayWidth l)) 32)) lines"
    by (simp add: unboxPlain_def butlast_append)
  also have "\<dots> = map (\<lambda>l. l) lines"
    using assms(1) by (intro map_cong refl trimSpaces_fill) auto
  finally have "unboxPlain ?box = lines" by simp
  with r show ?thesis by blast
qed

theorem plain_box_round_trip_witness:
  "(runes ''a'' = [] \<or> (hd (runes ''a'') \<noteq> 32 \<and> last (runes ''a'') \<noteq> 32))
   \<and> goString (runes ''b c'')
   \<and> (\<exists>box. createNestedBoxes getNextColor [runes ''a'', runes ''b c'', []] 1 [] [] []
               (getTheme (runes ''plain'')) 0 0 None None [] = Inr box
            \<and> unboxPlain box = [runes ''a'', runes ''b c'', []])"
proof -
  have a: "\<forall>l\<in>set [runes ''a'', runes ''b c'', []]. l = [] \<or> (hd l \<noteq> 32 \<and> last l \<noteq> 32)"
    by code_simp
  have b: "\<forall>l\<in>set [runes ''a'', runes ''b c'', []]. goString l" by code_simp
  from plain_box_round_trip [OF a b, of getNextColor "[]"] a b show ?thesis by simp
qed

text \<open>
  The claim as stated fails for a line that ends (or begins) with a space: the fill
  cannot be told from the line's own spaces. Two different inputs even give the same
  box, so no reading of the box gives every input back.
\<close>

theorem plain_box_round_trip_counterexample:
  "createNestedBoxes getNextColor [runes ''a '', runes ''bb''] 1 [] [] []
       (getTheme (runes ''plain'')) 0 0 None None []
     = Inr [runes ''    '', runes '' a  '', runes '' bb '', runes ''    '']
   \<and> unboxPlain [runes ''    '', runes '' a  '', runes '' bb '', runes ''    '']
       = [runes ''a'', runes ''bb'']
   \<and> [runes ''a'', runes ''bb''] \<noteq> [runes ''a '', runes ''bb'']
   \<and> createNestedBoxes getNextColor [runes ''a'', runes ''bb''] 1 [] [] []
          (getTheme (runes ''plain'')) 0 0 None None []
       = Inr [runes ''    '', runes '' a  '', runes '' bb '', runes ''    '']"
  by code_simp

section \<open>The layers of createNestedBoxes\<close>

text \<open>
  Claim C3, as amended. With no color theme, the border color and the title color of
  layer \<open>i\<close> are parsed from the list element at position \<open>i\<close> if there is one, else
  from the first element of a list that is not empty, else they are unset. The title of
  layer \<open>i\<close> is the element at position \<open>i\<close> if there is one and the empty string
  otherwise: a titles list does not fall back to its first element.
\<close>

theorem layer_attributes:
  "layerBoxColor gnc None boxColors i rnd
     = Inr (map_option parseColor (resolveAt boxColors i), None, rnd)
   \<and> layerTitleColor titleColors i = map_option parseColor (resolveAt titleColors i)
   \<and> layerTitle boxTitles i = (if i < length boxTitles then boxTitles ! i else [])"
  by (cases boxColors; cases titleColors)
     (simp_all add: layerBoxColor_def layerTitleColor_def layerTitle_def resolveAt_def)

text \<open>
  The claim as stated fails for the titles: past the end of a titles list the title is
  empty, not the first element. The second layer of a box of depth 2 with the one title
  \<^verbatim>\<open>A\<close> has no title.
\<close>

theorem layer_attributes_counterexample:
  "layerTitle [runes ''A''] 1 = []
   \<and> resolveAt [runes ''A''] 1 = Some (runes ''A'')
   \<and> createNestedBoxes getNextColor [runes ''hi''] 2 [] [] [runes ''A''] (getTheme (runes ''ascii''))
         0 0 None None []
       = Inr [runes ''+----+'', runes ''|+A-+|'', runes ''||hi||'', runes ''|+--+|'', runes ''+----+'']"
  by code_simp

text \<open>
  Claim C1 fails on the code. The loop puts the box of index 0 around the raw lines, so
  the color the engine gives for index 0 is on the innermost border and the color for
  index \<open>d - 1\<close> on the outermost one. With the rainbow theme and depth 2, in either
  revision of the engine, the outer border carries color 1 and the inner border color 0.
\<close>

theorem createNestedBoxes_theme_order:
  "createNestedBoxes getNextColor [runes ''hi''] 2 [] [] [] (getTheme (runes ''ascii'')) 0 0 None
       (Some \<lparr>name = runes ''rainbow'', startColor = 7, usedColors = {}, colorIndex = 0\<rparr>) []
     = Inr [Sprint [38, 5, 1] (runes ''+'') @ Sprint [38, 5, 1] (runes ''----'') @ Sprint [38, 5, 1] (runes ''+''),
            Sprint [38, 5, 1] (runes ''|'')
              @ Sprint [38, 5, 0] (runes ''+'') @ Sprint [38, 5, 0] (runes ''--'') @ Sprint [38, 5, 0] (runes ''+'')
              @ Sprint [38, 5, 1] (runes ''|''),
            Sprint [38, 5, 1] (runes ''|'')
              @ Sprint [38, 5, 0] (runes ''|'') @ runes ''hi'' @ Sprint [38, 5, 0] (runes ''|'')
              @ Sprint [38, 5, 1] (runes ''|''),
            Sprint [38, 5, 1] (runes ''|'')
              @ Sprint [38, 5, 0] (runes ''+'') @ Sprint [38, 5, 0] (runes ''--'') @ Sprint [38, 5, 0] (runes ''+'')
              @ Sprint [38, 5, 1] (runes ''|''),
            Sprint [38, 5, 1] (runes ''+'') @ Sprint [38, 5, 1] (runes ''----'') @ Sprint [38, 5, 1] (runes ''+'')]
   \<and> createNestedBoxes getNextColor_indexed [runes ''hi''] 2 [] [] [] (getTheme (runes ''ascii'')) 0 0 None
       (Some \<lparr>name = runes ''rainbow'', startColor = 7, usedColors = {}, colorIndex = 0\<rparr>) []
     = createNestedBoxes getNextColor [runes ''hi''] 2 [] [] [] (getTheme (runes ''ascii'')) 0 0 None
       (Some \<lparr>name = runes ''rainbow'', startColor = 7, usedColors = {}, colorIndex = 0\<rparr>) []"
  by code_simp

text \<open>
  Claim C2 fails on the code. The content color goes to the call of \<^verbatim>\<open>createBox\<close> with
  \<^verbatim>\<open>i == depth-1\<close>, the last and outermost one, whose content lines are the lines of the
  boxes built before. With depth 2 the color is put around each line of the inner box,
  borders included, and the call that renders the raw line gets no content color. The
  first revision of the file gives the content color to both layers.
\<close>

theorem createNestedBoxes_content_color:
  "createNestedBoxes getNextColor [runes ''hi''] 2 [] [] [] (getTheme (runes ''ascii'')) 0 0
       (Some [31]) None []
     = Inr [runes ''+----+'',
            runes ''|'' @ Sprint [31] (runes ''+--+'') @ runes ''|'',
            runes ''|'' @ Sprint [31] (runes ''|hi|'') @ runes ''|'',
            runes ''|'' @ Sprint [31] (runes ''+--+'') @ runes ''|'',
            runes ''+----+'']
   \<and> createNestedBoxes getNextColor_indexed [runes ''hi''] 2 [] [] [] (getTheme (runes ''ascii'')) 0 0
       (Some [31]) None []
     = createNestedBoxes getNextColor [runes ''hi''] 2 [] [] [] (getTheme (runes ''ascii'')) 0 0
       (Some [31]) None []
   \<and> createNestedBoxes_first [runes ''hi''] 2 [] [] [] (getTheme (runes ''ascii'')) 0 0 (Some [31])
     = Inr [runes ''+----+'',
            runes ''|'' @ Sprint [31] (runes ''+--+'') @ runes ''|'',
            runes ''|'' @ Sprint [31] (runes ''|'' @ Sprint [31] (runes ''hi'') @ runes ''|'') @ runes ''|'',
            runes ''|'' @ Sprint [31] (runes ''+--+'') @ runes ''|'',
            runes ''+----+'']"
  by code_simp

section \<open>The flag palettes\<close>

lemma flagLoop_result:
  "flagLoop cs th i = Inr (c, th') \<Longrightarrow> c \<in> set cs \<and> name th' = name th"
proof (induction cs th i rule: flagLoop.induct)
  case (1 cs th i)
  show ?case
  proof (cases "i < length cs")
    case False
    with "1.prems" show ?thesis
      by (subst (asm) flagLoop.simps) (auto split: list.splits)
  next
    case True
    let ?k = "goRem (wrap64 (colorIndex th + int i)) (int (length cs))"
    from "1.prems" True have ok: "\<not> (?k < 0 \<or> int (length cs) \<le> ?k)"
      by (subst (asm) flagLoop.simps) (auto simp: Let_def split: if_splits)
    show ?thesis
    proof (cases "cs ! nat ?k \<notin> usedColors th")
      case True
      with "1.prems" \<open>i < length cs\<close> ok have "c = cs ! nat ?k" "name th' = name th"
        by (subst (asm) flagLoop.simps, auto simp: Let_def)+
      moreover have "nat ?k < length cs" using ok by auto
      ultimately show ?thesis by simp
    next
      case False
      with "1.prems" \<open>i < length cs\<close> ok have "flagLoop cs th (Suc i) = Inr (c, th')"
        by (subst (asm) flagLoop.simps) (auto simp: Let_def)
      from "1.IH" [OF \<open>i < length cs\<close> refl ok refl _ this] False show ?thesis by simp
    qed
  qed
qed

lemma flagTheme_result:
  "cs \<noteq> [] \<Longrightarrow> flagTheme cs th = Inr (c, th') \<Longrightarrow> c \<in> set cs \<and> name th' = name th"
  by (auto simp: flagTheme_def Let_def split: if_splits dest: flagLoop_result)

lemma getNextColor_trans:
  assumes "name th = runes ''trans''" and "getNextColor th ix rnd = Inr (c, th', rnd')"
  shows "c \<in> {51, 213, 15} \<and> name th' = runes ''trans''"
proof -
  have n: "runes ''trans'' \<noteq> runes ''random''" "runes ''trans'' \<noteq> runes ''gradient''"
    "runes ''trans'' \<noteq> runes ''rainbow''" "runes ''trans'' \<noteq> runes ''pride''"
    by (simp_all add: runes_def)
  have cc: "candidateColors (runes ''trans'') = [51, 213, 15]"
    by (simp add: candidateColors_def n)
  from assms obtain th'' where "flagTheme [51, 213, 15] th = Inr (c, th'')" "th' = th''"
    by (auto simp: getNextColor_def n cc split: sum.splits)
  with flagTheme_result [of "[51, 213, 15]" th c th'] assms(1) show ?thesis by auto
qed

lemma calls_trans:
  "name th = runes ''trans'' \<Longrightarrow> calls getNextColor n i th rnd = Inr (cs, th', rnd')
     \<Longrightarrow> set cs \<subseteq> {51, 213, 15}"
proof (induction n arbitrary: i th rnd cs)
  case 0
  then show ?case by simp
next
  case (Suc n)
  from Suc.prems(2) obtain c th1 rnd1 cs1 where
    g: "getNextColor th (int i) rnd = Inr (c, th1, rnd1)"
    and r: "calls getNextColor n (Suc i) th1 rnd1 = Inr (cs1, th', rnd')" and cs: "cs = c # cs1"
    by (auto split: sum.splits)
  from getNextColor_trans [OF Suc.prems(1) g] have c: "c \<in> {51, 213, 15}" "name th1 = runes ''trans''"
    by simp_all
  from Suc.IH [OF c(2) r] c(1) cs show ?case by auto
qed

lemma goRem_nonneg: "0 \<le> a \<Longrightarrow> 0 < b \<Longrightarrow> goRem a b = a mod b"
  by (cases "a = 0") (simp_all add: goRem_def)

lemma flagLoop_returns:
  assumes ne: "cs \<noteq> []" and c0: "0 \<le> colorIndex th"
    and fit: "colorIndex th + int (length cs) \<le> maxInt"
  shows "\<exists>c th'. flagLoop cs th i = Inr (c, th')
            \<and> 0 \<le> colorIndex th' \<and> colorIndex th' \<le> int (length cs)"
proof (induction "length cs - i" arbitrary: i)
  case 0
  then have "\<not> i < length cs" by simp
  with ne show ?case by (subst flagLoop.simps) (auto split: list.splits)
next
  case (Suc k)
  then have lt: "i < length cs" by simp
  let ?n = "int (length cs)"
  let ?k = "goRem (wrap64 (colorIndex th + int i)) ?n"
  have n0: "0 < ?n" using ne by simp
  have "wrap64 (colorIndex th + int i) = colorIndex th + int i"
    using c0 fit lt by (intro wrap64_id) auto
  then have k: "?k = (colorIndex th + int i) mod ?n"
    using c0 n0 by (simp add: goRem_nonneg)
  have kr: "0 \<le> ?k" "?k < ?n" using n0 unfolding k by simp_all
  show ?case
  proof (cases "cs ! nat ?k \<notin> usedColors th")
    case False
    have "k = length cs - Suc i" using Suc.hyps(2) by simp
    from Suc.hyps(1) [OF this] False lt kr show ?thesis
      by (subst flagLoop.simps) (simp add: Let_def)
  next
    case True
    have "wrap64 (?k + 1) = ?k + 1" using kr c0 fit by (intro wrap64_id) auto
    then have "goRem (wrap64 (?k + 1)) ?n = (?k + 1) mod ?n"
      using kr n0 by (simp add: goRem_nonneg)
    moreover have "0 \<le> (?k + 1) mod ?n" "(?k + 1) mod ?n < ?n" using n0 by simp_all
    ultimately have "0 \<le> goRem (wrap64 (?k + 1)) ?n" "goRem (wrap64 (?k + 1)) ?n \<le> ?n"
      by simp_all
    with True lt kr show ?thesis
      by (subst flagLoop.simps) (simp add: Let_def)
  qed
qed

lemma getNextColor_trans_returns:
  assumes "name th = runes ''trans''" and "0 \<le> colorIndex th" and "colorIndex th \<le> 3"
  shows "\<exists>c th'. getNextColor th ix rnd = Inr (c, th', rnd)
            \<and> name th' = runes ''trans'' \<and> 0 \<le> colorIndex th' \<and> colorIndex th' \<le> 3"
proof -
  have n: "runes ''trans'' \<noteq> runes ''random''" "runes ''trans'' \<noteq> runes ''gradient''"
    "runes ''trans'' \<noteq> runes ''rainbow''" "runes ''trans'' \<noteq> runes ''pride''"
    by (simp_all add: runes_def)
  have cc: "candidateColors (runes ''trans'') = [51, 213, 15]"
    by (simp add: candidateColors_def n)
  let ?th = "if card (usedColors th) \<ge> length [51, 213, 15 :: int] then th\<lparr>usedColors := {}\<rparr> else th"
  have "0 \<le> colorIndex ?th" "colorIndex ?th + int (length [51, 213, 15 :: int]) \<le> maxInt"
    using assms by (simp_all add: maxInt_def)
  from flagLoop_returns [OF _ this, of 0] obtain c th' where
    f: "flagLoop [51, 213, 15] ?th 0 = Inr (c, th')" "0 \<le> colorIndex th'" "colorIndex th' \<le> 3"
    by auto
  then have ft: "flagTheme [51, 213, 15] th = Inr (c, th')"
    by (simp add: flagTheme_def Let_def)
  from flagTheme_result [OF _ ft] assms(1) have "name th' = runes ''trans''" by simp
  with ft f(2,3) assms(1) show ?thesis by (simp add: getNextColor_def n cc)
qed

lemma calls_trans_returns:
  "name th = runes ''trans'' \<Longrightarrow> 0 \<le> colorIndex th \<Longrightarrow> colorIndex th \<le> 3
     \<Longrightarrow> \<exists>cs th'. calls getNextColor n i th rnd = Inr (cs, th', rnd)"
proof (induction n arbitrary: i th)
  case 0
  show ?case by simp
next
  case (Suc n)
  from getNextColor_trans_returns [OF Suc.prems, of "int i" rnd] obtain c th1 where
    g: "getNextColor th (int i) rnd = Inr (c, th1, rnd)" "name th1 = runes ''trans''"
      "0 \<le> colorIndex th1" "colorIndex th1 \<le> 3"
    by blast
  from Suc.IH [OF g(2,3,4), of "Suc i"] g(1) show ?case by auto
qed

lemma getNextColor_indexed_trans:
  assumes "name th = runes ''trans''" and "0 \<le> ix"
  shows "\<exists>c. getNextColor_indexed th ix rnd = Inr (c, th, rnd) \<and> c \<in> {51, 213, 15}"
proof -
  have n: "runes ''trans'' \<noteq> runes ''random''" "runes ''trans'' \<noteq> runes ''gradient''"
    "runes ''trans'' \<noteq> runes ''rainbow''" "runes ''trans'' \<noteq> runes ''pride''"
    by (simp_all add: runes_def)
  let ?k = "goRem ix (int (length transColors))"
  have k: "?k = ix mod 5" using assms(2) by (simp add: goRem_nonneg transColors_def)
  have "0 \<le> ix mod 5" "ix mod 5 < 5" by simp_all
  then have "ix mod 5 \<in> {0, 1, 2, 3, 4}" by auto
  then have "transColors ! nat (ix mod 5) \<in> {51, 213, 15}"
    by (auto simp: transColors_def)
  moreover have "sliceAt transColors ?k = Inr (transColors ! nat (ix mod 5))"
    unfolding k by (simp add: sliceAt_def transColors_def)
  ultimately show ?thesis using assms(1) by (simp add: getNextColor_indexed_def n)
qed

lemma calls_indexed_trans:
  "name th = runes ''trans''
     \<Longrightarrow> \<exists>cs. calls getNextColor_indexed n i th rnd = Inr (cs, th, rnd) \<and> set cs \<subseteq> {51, 213, 15}"
proof (induction n arbitrary: i)
  case 0
  show ?case by simp
next
  case (Suc n)
  from getNextColor_indexed_trans [OF Suc.prems, of "int i" rnd] obtain c where
    g: "getNextColor_indexed th (int i) rnd = Inr (c, th, rnd)" "c \<in> {51, 213, 15}" by auto
  from Suc.IH [OF Suc.prems, of "Suc i"] obtain cs where
    r: "calls getNextColor_indexed n (Suc i) th rnd = Inr (cs, th, rnd)" "set cs \<subseteq> {51, 213, 15}"
    by blast
  from g r show ?case by auto
qed

text \<open>
  Claim C4, as amended. The palette of the trans theme holds exactly three different
  color indices, 51, 213 and 15: the later revision lists them once each, the earlier
  revision \<^verbatim>\<open>box.go\<close> lists the five stripes 51, 213, 15, 213, 51. In both revisions
  every color of the theme, over any number of consecutive calls, is one of the three,
  and the calls return (in the later revision from a theme whose cursor is within the
  palette, as it is from \<^verbatim>\<open>newColorTheme\<close> on).
\<close>

theorem trans_palette:
  "candidateColors (runes ''trans'') = [51, 213, 15]
   \<and> set transColors = {51, 213, 15}
   \<and> (name theme = runes ''trans'' \<longrightarrow>
        (\<forall>cs theme' rnd'. calls getNextColor n i theme rnd = Inr (cs, theme', rnd')
            \<longrightarrow> set cs \<subseteq> {51, 213, 15})
        \<and> (0 \<le> colorIndex theme \<and> colorIndex theme \<le> 3
            \<longrightarrow> (\<exists>cs theme'. calls getNextColor n i theme rnd = Inr (cs, theme', rnd)))
        \<and> (\<exists>cs. calls getNextColor_indexed n i theme rnd = Inr (cs, theme, rnd)
                \<and> set cs \<subseteq> {51, 213, 15}))"
proof -
  have "candidateColors (runes ''trans'') = [51, 213, 15]"
    by (simp add: candidateColors_def runes_def)
  moreover have "set transColors = {51, 213, 15}"
    by (auto simp: transColors_def)
  ultimately show ?thesis
    using calls_trans [of theme n i rnd] calls_trans_returns [of theme n i rnd]
      calls_indexed_trans [of theme n i rnd]
    by blast
qed

theorem trans_palette_witness:
  "name \<lparr>name = runes ''trans'', startColor = 7, usedColors = {}, colorIndex = 0\<rparr> = runes ''trans''
   \<and> calls getNextColor 5 0 \<lparr>name = runes ''trans'', startColor = 7, usedColors = {}, colorIndex = 0\<rparr> []
       = Inr ([51, 213, 15, 51, 213],
              \<lparr>name = runes ''trans'', startColor = 7, usedColors = {213, 51}, colorIndex = 2\<rparr>, [])
   \<and> set [51, 213, 15, 51, 213 :: int] \<subseteq> {51, 213, 15}"
proof -
  let ?th = "\<lparr>name = runes ''trans'', startColor = 7, usedColors = {}, colorIndex = 0\<rparr>"
  have n: "name ?th = runes ''trans''" by simp
  have c: "calls getNextColor 5 0 ?th []
             = Inr ([51, 213, 15, 51, 213],
                    \<lparr>name = runes ''trans'', startColor = 7, usedColors = {213, 51}, colorIndex = 2\<rparr>, [])"
    by code_simp
  from trans_palette [of ?th 5 0 "[]"] n c show ?thesis by simp
qed

text \<open>
  The claim as stated fails on the earlier revision: the literal list of \<^verbatim>\<open>box.go\<close> has
  five entries, and five calls walk through all of them.
\<close>

theorem trans_palette_counterexample:
  "transColors = [51, 213, 15, 213, 51] \<and> length transColors = 5
   \<and> calls getNextColor_indexed 5 0
         \<lparr>name = runes ''trans'', startColor = 7, usedColors = {}, colorIndex = 0\<rparr> []
       = Inr ([51, 213, 15, 213, 51],
              \<lparr>name = runes ''trans'', startColor = 7, usedColors = {}, colorIndex = 0\<rparr>, [])"
  by code_simp

section \<open>The random theme\<close>


lemma random_names:
  "runes ''random'' \<noteq> runes ''gradient''" "runes ''random'' \<noteq> runes ''rainbow''"
  by (simp_all add: runes_def)
















end
